theory Spec2Isabelle
  imports Complex_Main
begin

section \<open>Axis-aligned bounding boxes: \<^verbatim>\<open>src/physics/bounds.js\<close>\<close>

subsection \<open>JavaScript numbers\<close>

text \<open>
  The fields of a bounds are JavaScript numbers: IEEE 754 doubles. The class itself stores
  \<^verbatim>\<open>Infinity\<close> and \<^verbatim>\<open>-Infinity\<close> (its empty state), and its arithmetic can produce
  \<^verbatim>\<open>NaN\<close> (\<^verbatim>\<open>Infinity + -Infinity\<close>), so all three are values of the model. A finite
  double is modelled by the real it denotes (the two zeros are one value): comparisons of
  doubles are the comparisons of these reals, and an addition gives the exact sum rounded to
  the nearest double.
\<close>

datatype number = NaN | NegInfinity | Finite real | Infinity

fun isFinite :: "number \<Rightarrow> bool" where
  "isFinite (Finite a) = True"
| "isFinite _ = False"

fun isNaN :: "number \<Rightarrow> bool" where
  "isNaN NaN = True"
| "isNaN _ = False"

text \<open>\<^verbatim>\<open>a < b\<close> and \<^verbatim>\<open>a <= b\<close>: false as soon as one side is \<^verbatim>\<open>NaN\<close>.\<close>

fun js_lt :: "number \<Rightarrow> number \<Rightarrow> bool" where
  "js_lt (Finite a) (Finite b) = (a < b)"
| "js_lt NegInfinity (Finite b) = True"
| "js_lt NegInfinity Infinity = True"
| "js_lt (Finite a) Infinity = True"
| "js_lt _ _ = False"

fun js_le :: "number \<Rightarrow> number \<Rightarrow> bool" where
  "js_le (Finite a) (Finite b) = (a \<le> b)"
| "js_le NaN _ = False"
| "js_le _ NaN = False"
| "js_le NegInfinity _ = True"
| "js_le _ Infinity = True"
| "js_le _ _ = False"

text \<open>\<^verbatim>\<open>a > b\<close> and \<^verbatim>\<open>a >= b\<close> are the same comparisons with the operands exchanged.\<close>

definition js_gt :: "number \<Rightarrow> number \<Rightarrow> bool" where
  "js_gt a b = js_lt b a"

definition js_ge :: "number \<Rightarrow> number \<Rightarrow> bool" where
  "js_ge a b = js_le b a"

text \<open>
  Rounding a real to the nearest double, ties to the even significand. A double has 53
  significant bits: in the binade of exponent \<open>e\<close> (at least \<open>-1022\<close>, below which the
  subnormal numbers keep the spacing of the last binade) the doubles are the multiples of
  \<^verbatim>\<open>2^(e-52)\<close>. A result of magnitude \<^verbatim>\<open>2^1024\<close> or more, after rounding, is an infinity.
\<close>

definition round_half_even :: "real \<Rightarrow> int" where
  "round_half_even t =
     (let f = \<lfloor>t\<rfloor>; d = t - of_int f
      in if d < 1 / 2 then f else if 1 / 2 < d then f + 1 else if even f then f else f + 1)"

definition exponent :: "real \<Rightarrow> int" where
  "exponent r = max \<lfloor>log 2 \<bar>r\<bar>\<rfloor> (- 1022)"

definition overflow :: real where
  "overflow = 2 ^ 1024"

definition round64 :: "real \<Rightarrow> number" where
  "round64 r =
     (if r = 0 then Finite 0
      else let q = 2 powr of_int (exponent r - 52);
               m = of_int (round_half_even (r / q)) * q
           in if overflow \<le> \<bar>m\<bar> then (if 0 < r then Infinity else NegInfinity) else Finite m)"



text \<open>\<^verbatim>\<open>a + b\<close> and unary \<^verbatim>\<open>-a\<close>.\<close>

fun js_add :: "number \<Rightarrow> number \<Rightarrow> number" where
  "js_add (Finite a) (Finite b) = round64 (a + b)"
| "js_add NaN _ = NaN"
| "js_add _ NaN = NaN"
| "js_add Infinity NegInfinity = NaN"
| "js_add NegInfinity Infinity = NaN"
| "js_add Infinity _ = Infinity"
| "js_add _ Infinity = Infinity"
| "js_add NegInfinity _ = NegInfinity"
| "js_add _ NegInfinity = NegInfinity"

fun js_neg :: "number \<Rightarrow> number" where
  "js_neg (Finite a) = Finite (- a)"
| "js_neg Infinity = NegInfinity"
| "js_neg NegInfinity = Infinity"
| "js_neg NaN = NaN"


subsection \<open>Points and bounds\<close>

text \<open>
  A point is any object with numeric fields \<^verbatim>\<open>x\<close> and \<^verbatim>\<open>y\<close>; a bounds holds two
  of them, \<^verbatim>\<open>min\<close> and \<^verbatim>\<open>max\<close>, which it creates itself and never shares.
\<close>

record vector =
  x :: number
  y :: number

record Bounds =
  min_corner :: vector
  max_corner :: vector

text \<open>\<^verbatim>\<open>-v\<close>, the vector with both components negated.\<close>

definition negate :: "vector \<Rightarrow> vector" where
  "negate v = \<lparr>x = js_neg (x v), y = js_neg (y v)\<rparr>"

subsection \<open>Methods that change the receiver only\<close>

definition setMinMax :: "Bounds \<Rightarrow> number \<Rightarrow> number \<Rightarrow> number \<Rightarrow> number \<Rightarrow> Bounds" where
  "setMinMax this minX minY maxX maxY =
     (let b1 = this\<lparr>min_corner := (min_corner this)\<lparr>x := minX\<rparr>\<rparr>;
          b2 = b1\<lparr>min_corner := (min_corner b1)\<lparr>y := minY\<rparr>\<rparr>;
          b3 = b2\<lparr>max_corner := (max_corner b2)\<lparr>x := maxX\<rparr>\<rparr>
      in b3\<lparr>max_corner := (max_corner b3)\<lparr>y := maxY\<rparr>\<rparr>)"

definition clear :: "Bounds \<Rightarrow> Bounds" where
  "clear this = setMinMax this Infinity Infinity NegInfinity NegInfinity"

text \<open>The four statements of the loop body of \<^verbatim>\<open>add\<close>, for one vertex.\<close>

definition add_vertex :: "Bounds \<Rightarrow> vector \<Rightarrow> Bounds" where
  "add_vertex this vertex =
     (let b1 = (if js_gt (x vertex) (x (max_corner this))
                then this\<lparr>max_corner := (max_corner this)\<lparr>x := x vertex\<rparr>\<rparr> else this);
          b2 = (if js_lt (x vertex) (x (min_corner b1))
                then b1\<lparr>min_corner := (min_corner b1)\<lparr>x := x vertex\<rparr>\<rparr> else b1);
          b3 = (if js_gt (y vertex) (y (max_corner b2))
                then b2\<lparr>max_corner := (max_corner b2)\<lparr>y := y vertex\<rparr>\<rparr> else b2)
      in (if js_lt (y vertex) (y (min_corner b3))
          then b3\<lparr>min_corner := (min_corner b3)\<lparr>y := y vertex\<rparr>\<rparr> else b3))"

text \<open>The loop of \<^verbatim>\<open>add\<close> over the vertices, first to last.\<close>

fun add_loop :: "Bounds \<Rightarrow> vector list \<Rightarrow> Bounds" where
  "add_loop this [] = this"
| "add_loop this (vertex # vertices) = add_loop (add_vertex this vertex) vertices"

definition add :: "Bounds \<Rightarrow> vector list \<Rightarrow> bool \<Rightarrow> Bounds" where
  "add this vertices clr = add_loop (if clr then clear this else this) vertices"

definition update :: "Bounds \<Rightarrow> vector list \<Rightarrow> Bounds" where
  "update this vertices = add this vertices True"

text \<open>The constructor: the empty state, then \<^verbatim>\<open>update\<close> when vertices are given.\<close>

definition constructor :: "vector list option \<Rightarrow> Bounds" where
  "constructor vertices =
     (let this = \<lparr>min_corner = \<lparr>x = Infinity, y = Infinity\<rparr>,
                  max_corner = \<lparr>x = NegInfinity, y = NegInfinity\<rparr>\<rparr>
      in case vertices of None \<Rightarrow> this | Some vs \<Rightarrow> update this vs)"

definition set_width :: "Bounds \<Rightarrow> number \<Rightarrow> Bounds" where
  "set_width this v = this\<lparr>max_corner := (max_corner this)\<lparr>x := js_add (x (min_corner this)) v\<rparr>\<rparr>"

definition set_height :: "Bounds \<Rightarrow> number \<Rightarrow> Bounds" where
  "set_height this v = this\<lparr>max_corner := (max_corner this)\<lparr>y := js_add (y (min_corner this)) v\<rparr>\<rparr>"

definition contains :: "Bounds \<Rightarrow> vector \<Rightarrow> bool" where
  "contains this point \<longleftrightarrow>
     js_ge (x point) (x (min_corner this)) \<and> js_le (x point) (x (max_corner this))
     \<and> js_ge (y point) (y (min_corner this)) \<and> js_le (y point) (y (max_corner this))"

definition overlaps :: "Bounds \<Rightarrow> Bounds \<Rightarrow> bool" where
  "overlaps this bounds \<longleftrightarrow>
     js_le (x (min_corner this)) (x (max_corner bounds))
     \<and> js_ge (x (max_corner this)) (x (min_corner bounds))
     \<and> js_ge (y (max_corner this)) (y (min_corner bounds))
     \<and> js_le (y (min_corner this)) (y (max_corner bounds))"

text \<open>
  \<^verbatim>\<open>translate(vector)\<close> reads \<^verbatim>\<open>vector.x\<close> and \<^verbatim>\<open>vector.y\<close> again after it has written
  \<^verbatim>\<open>this.min\<close>, and the vector is an object: the receiver's own \<^verbatim>\<open>min\<close>, its own
  \<^verbatim>\<open>max\<close>, or another object, which the method does not write.
\<close>

datatype vector_ref = This_min | This_max | Other vector

fun deref :: "Bounds \<Rightarrow> vector_ref \<Rightarrow> vector" where
  "deref this This_min = min_corner this"
| "deref this This_max = max_corner this"
| "deref this (Other v) = v"

definition translate :: "Bounds \<Rightarrow> vector_ref \<Rightarrow> Bounds" where
  "translate this vector =
     (let b1 = this\<lparr>min_corner := (min_corner this)
                 \<lparr>x := js_add (x (min_corner this)) (x (deref this vector))\<rparr>\<rparr>;
          b2 = b1\<lparr>max_corner := (max_corner b1)
                 \<lparr>x := js_add (x (max_corner b1)) (x (deref b1 vector))\<rparr>\<rparr>;
          b3 = b2\<lparr>min_corner := (min_corner b2)
                 \<lparr>y := js_add (y (min_corner b2)) (y (deref b2 vector))\<rparr>\<rparr>
      in b3\<lparr>max_corner := (max_corner b3)
                 \<lparr>y := js_add (y (max_corner b3)) (y (deref b3 vector))\<rparr>\<rparr>)"

text \<open>A bounds all of whose four coordinates are finite numbers.\<close>

definition finite_bounds :: "Bounds \<Rightarrow> bool" where
  "finite_bounds b \<longleftrightarrow>
     isFinite (x (min_corner b)) \<and> isFinite (y (min_corner b))
     \<and> isFinite (x (max_corner b)) \<and> isFinite (y (max_corner b))"

definition finite_vector :: "vector \<Rightarrow> bool" where
  "finite_vector p \<longleftrightarrow> isFinite (x p) \<and> isFinite (y p)"


definition nan_free :: "Bounds \<Rightarrow> bool" where
  "nan_free b \<longleftrightarrow>
     \<not> isNaN (x (min_corner b)) \<and> \<not> isNaN (y (min_corner b))
     \<and> \<not> isNaN (x (max_corner b)) \<and> \<not> isNaN (y (max_corner b))"

text \<open>
  The invariant of the data model, \<^verbatim>\<open>min.x <= max.x\<close> and \<^verbatim>\<open>min.y <= max.y\<close>: no method
  enforces it (\<^verbatim>\<open>setMinMax\<close> and the size setters store what they are given).
\<close>

definition valid_bounds :: "Bounds \<Rightarrow> bool" where
  "valid_bounds b \<longleftrightarrow>
     js_le (x (min_corner b)) (x (max_corner b)) \<and> js_le (y (min_corner b)) (y (max_corner b))"

text \<open>
  The contract of \<^verbatim>\<open>add\<close> in the specification's words: the content of a bounds is the
  set of points it contains, and a bounds is the smallest box containing a set of points when
  it contains them all and lies inside every bounds that contains them all.
\<close>

definition content :: "Bounds \<Rightarrow> vector set" where
  "content b = {p. contains b p}"

definition smallest_box_containing :: "Bounds \<Rightarrow> vector set \<Rightarrow> bool" where
  "smallest_box_containing b S \<longleftrightarrow>
     (\<forall>p\<in>S. contains b p) \<and> (\<forall>b'. (\<forall>p\<in>S. contains b' p) \<longrightarrow> content b \<subseteq> content b')"

text \<open>A bounds lies inside another when its corners do, coordinate by coordinate.\<close>

definition inside :: "Bounds \<Rightarrow> Bounds \<Rightarrow> bool" where
  "inside b b' \<longleftrightarrow>
     js_le (x (min_corner b')) (x (min_corner b)) \<and> js_le (x (max_corner b)) (x (max_corner b'))
     \<and> js_le (y (min_corner b')) (y (min_corner b)) \<and> js_le (y (max_corner b)) (y (max_corner b'))"

subsection \<open>\<^verbatim>\<open>addBounds\<close>: a method whose argument can be the receiver\<close>

text \<open>
  \<^verbatim>\<open>addBounds(bounds, clear)\<close> writes the receiver and reads another bounds object, which
  may be the receiver itself: objects are referenced, and a store maps each reference to the
  state of its object. Each statement reads the store the statement before it left.
\<close>

type_synonym ref = nat

type_synonym store = "ref \<Rightarrow> Bounds"

text \<open>A store in which every reference is a newly constructed, empty bounds.\<close>

definition fresh_store :: store where
  "fresh_store = (\<lambda>r. constructor None)"

text \<open>\<^verbatim>\<open>if (clear === true) { this.clear(); }\<close>\<close>

definition addBounds_clear :: "store \<Rightarrow> ref \<Rightarrow> bool \<Rightarrow> store" where
  "addBounds_clear s this clr = (if clr then s(this := clear (s this)) else s)"

text \<open>\<^verbatim>\<open>if (bounds.max.x > this.max.x) this.max.x = bounds.max.x;\<close>\<close>

definition addBounds_max_x :: "store \<Rightarrow> ref \<Rightarrow> ref \<Rightarrow> store" where
  "addBounds_max_x s this bounds =
     (if js_gt (x (max_corner (s bounds))) (x (max_corner (s this)))
      then s(this := (s this)\<lparr>max_corner := (max_corner (s this))\<lparr>x := x (max_corner (s bounds))\<rparr>\<rparr>)
      else s)"

text \<open>\<^verbatim>\<open>if (bounds.min.x < this.min.x) this.min.x = bounds.min.x;\<close>\<close>

definition addBounds_min_x :: "store \<Rightarrow> ref \<Rightarrow> ref \<Rightarrow> store" where
  "addBounds_min_x s this bounds =
     (if js_lt (x (min_corner (s bounds))) (x (min_corner (s this)))
      then s(this := (s this)\<lparr>min_corner := (min_corner (s this))\<lparr>x := x (min_corner (s bounds))\<rparr>\<rparr>)
      else s)"

text \<open>\<^verbatim>\<open>if (bounds.max.y > this.max.y) this.max.y = bounds.max.y;\<close>\<close>

definition addBounds_max_y :: "store \<Rightarrow> ref \<Rightarrow> ref \<Rightarrow> store" where
  "addBounds_max_y s this bounds =
     (if js_gt (y (max_corner (s bounds))) (y (max_corner (s this)))
      then s(this := (s this)\<lparr>max_corner := (max_corner (s this))\<lparr>y := y (max_corner (s bounds))\<rparr>\<rparr>)
      else s)"

text \<open>\<^verbatim>\<open>if (bounds.min.y < this.min.y) this.min.y = bounds.max.y;\<close>\<close>

definition addBounds_min_y :: "store \<Rightarrow> ref \<Rightarrow> ref \<Rightarrow> store" where
  "addBounds_min_y s this bounds =
     (if js_lt (y (min_corner (s bounds))) (y (min_corner (s this)))
      then s(this := (s this)\<lparr>min_corner := (min_corner (s this))\<lparr>y := y (max_corner (s bounds))\<rparr>\<rparr>)
      else s)"

text \<open>The store when control reaches the \<^verbatim>\<open>min.x\<close> statement, and the \<^verbatim>\<open>min.y\<close> statement.\<close>

definition addBounds_at_min_x :: "store \<Rightarrow> ref \<Rightarrow> ref \<Rightarrow> bool \<Rightarrow> store" where
  "addBounds_at_min_x s this bounds clr = addBounds_max_x (addBounds_clear s this clr) this bounds"

definition addBounds_at_min_y :: "store \<Rightarrow> ref \<Rightarrow> ref \<Rightarrow> bool \<Rightarrow> store" where
  "addBounds_at_min_y s this bounds clr =
     addBounds_max_y (addBounds_min_x (addBounds_at_min_x s this bounds clr) this bounds) this bounds"

definition addBounds :: "store \<Rightarrow> ref \<Rightarrow> ref \<Rightarrow> bool \<Rightarrow> store" where
  "addBounds s this bounds clr = addBounds_min_y (addBounds_at_min_y s this bounds clr) this bounds"

section \<open>Properties\<close>

subsection \<open>Rounding\<close>

text \<open>
  An integer multiple \<^verbatim>\<open>n * 2^k\<close> with \<^verbatim>\<open>|n| < 2^53\<close> and \<^verbatim>\<open>k >= -1074\<close> is rounded to
  itself, or to an infinity when it is too large for a double.
\<close>

lemma round_half_even_of_int [simp]: "round_half_even (of_int j) = j"
  by (simp add: round_half_even_def)

lemma exponent_le:
  assumes "r \<noteq> 0" and "\<bar>r\<bar> < 2 powr of_int (k + 1)" and "- 1022 \<le> k"
  shows "exponent r \<le> k"
proof -
  have "log 2 \<bar>r\<bar> < of_int (k + 1)"
    using assms(1,2) by (simp add: log_less_iff)
  then have "\<lfloor>log 2 \<bar>r\<bar>\<rfloor> < k + 1"
    unfolding floor_less_iff .
  with assms(3) show ?thesis by (simp add: exponent_def)
qed

lemma exponent_eq:
  assumes "2 powr of_int k \<le> \<bar>r\<bar>" and "\<bar>r\<bar> < 2 powr of_int (k + 1)" and "- 1022 \<le> k"
  shows "exponent r = k"
proof -
  have pos: "0 < \<bar>r\<bar>" using assms(1) by (smt (verit) powr_gt_zero)
  have "of_int k \<le> log 2 \<bar>r\<bar>"
    using assms(1) pos by (simp add: le_log_iff)
  moreover have "log 2 \<bar>r\<bar> < of_int (k + 1)"
    using assms(2) pos by (simp add: log_less_iff)
  ultimately have "\<lfloor>log 2 \<bar>r\<bar>\<rfloor> = k"
    unfolding floor_eq_iff by simp
  with assms(3) show ?thesis by (simp add: exponent_def)
qed

lemma round64_dyadic:
  assumes r: "r = of_int n * 2 powr of_int k" and n0: "n \<noteq> 0"
    and n: "\<bar>n\<bar> < 2 ^ 53" and k: "- 1074 \<le> k"
  shows "round64 r =
     (if overflow \<le> \<bar>r\<bar> then (if 0 < r then Infinity else NegInfinity) else Finite r)"
proof -
  have r0: "r \<noteq> 0" using r n0 by simp
  have "\<bar>r\<bar> = of_int \<bar>n\<bar> * 2 powr of_int k"
    by (simp add: r abs_mult)
  also have "\<dots> < 2 ^ 53 * 2 powr of_int k"
  proof -
    have "(of_int \<bar>n\<bar> :: real) < of_int (2 ^ 53)" using n by (simp only: of_int_less_iff)
    then show ?thesis by simp
  qed
  also have "\<dots> = 2 powr of_int (52 + k + 1)"
    by (simp add: powr_add powr_realpow [symmetric] algebra_simps)
  finally have "\<bar>r\<bar> < 2 powr of_int (52 + k + 1)" .
  moreover have "- 1022 \<le> 52 + k" using k by simp
  ultimately have "exponent r \<le> 52 + k"
    using r0 by (rule exponent_le [rotated])
  define e where "e = exponent r"
  define d where "d = nat (52 + k - e)"
  define q :: real where "q = 2 powr of_int (e - 52)"
  have "of_int k = of_int (e - 52) + real d"
    using \<open>exponent r \<le> 52 + k\<close> by (simp add: d_def e_def)
  then have "2 powr of_int k = q * 2 ^ d"
    by (simp add: q_def powr_add powr_realpow)
  then have rq: "r = of_int (n * 2 ^ d) * q"
    by (simp add: r)
  have "0 < q" by (simp add: q_def)
  then have "r / q = of_int (n * 2 ^ d)"
    by (simp add: rq)
  then have m: "of_int (round_half_even (r / q)) * q = r"
    by (simp only: round_half_even_of_int rq [symmetric])
  show ?thesis
    unfolding round64_def Let_def e_def [symmetric] q_def [symmetric] m
    using r0 by simp
qed

lemma round64_of_int:
  assumes "\<bar>n\<bar> < 2 ^ 53"
  shows "round64 (of_int n) = Finite (of_int n)"
proof (cases "n = 0")
  case True
  then show ?thesis by (simp add: round64_def)
next
  case False
  have "\<bar>of_int n :: real\<bar> < of_int (2 ^ 53)"
    using assms by (simp only: of_int_abs [symmetric] of_int_less_iff)
  also have "\<dots> \<le> overflow"
    by (simp add: overflow_def)
  finally have "\<not> overflow \<le> \<bar>of_int n :: real\<bar>" by simp
  then show ?thesis
    using round64_dyadic [of "of_int n" n 0] False assms by simp
qed

lemma round64_numeral [simp]:
  "\<bar>numeral w :: int\<bar> < 2 ^ 53 \<Longrightarrow> round64 (numeral w) = Finite (numeral w)"
  "\<bar>numeral w :: int\<bar> < 2 ^ 53 \<Longrightarrow> round64 (- numeral w) = Finite (- numeral w)"
  "round64 0 = Finite 0"
  "round64 1 = Finite 1"
  using round64_of_int [of "numeral w"] round64_of_int [of "- numeral w"] round64_of_int [of 1]
  by (simp_all add: round64_def)



lemma round64_tie: "round64 (2 ^ 53 + 1) = Finite (2 ^ 53)"
proof -
  define r :: real where "r = 2 ^ 53 + 1"
  have e: "exponent r = 53"
    by (rule exponent_eq) (simp_all add: r_def powr_realpow [symmetric] flip: powr_numeral)
  have q: "2 powr of_int (exponent r - 52) = (2::real)"
    by (simp add: e)
  have "\<lfloor>r / 2\<rfloor> = 2 ^ 52"
    by (simp add: floor_eq_iff r_def)
  then have h: "round_half_even (r / 2) = 2 ^ 52"
    by (simp add: round_half_even_def Let_def r_def)
  have "round64 r = Finite (2 ^ 53)"
    unfolding round64_def Let_def q h by (simp add: r_def overflow_def)
  then show ?thesis by (simp add: r_def)
qed

subsection \<open>Comparisons\<close>

lemma js_le_Infinity_left [simp]: "js_le Infinity a \<longleftrightarrow> a = Infinity"
  by (cases a) simp_all

lemma js_le_NegInfinity_right [simp]: "js_le a NegInfinity \<longleftrightarrow> a = NegInfinity"
  by (cases a) simp_all

lemma clear_fields:
  "min_corner (clear b) = \<lparr>x = Infinity, y = Infinity\<rparr>"
  "max_corner (clear b) = \<lparr>x = NegInfinity, y = NegInfinity\<rparr>"
  by (simp_all add: clear_def setMinMax_def Let_def)

subsection \<open>Containment and overlap\<close>

text \<open>
  C5. \<^verbatim>\<open>contains(point)\<close> is true exactly when \<^verbatim>\<open>min.x <= point.x <= max.x\<close> and
  \<^verbatim>\<open>min.y <= point.y <= max.y\<close>: both intervals are closed.
\<close>

theorem contains_closed_intervals:
  "contains b p \<longleftrightarrow>
     (js_le (x (min_corner b)) (x p) \<and> js_le (x p) (x (max_corner b)))
     \<and> (js_le (y (min_corner b)) (y p) \<and> js_le (y p) (y (max_corner b)))"
  by (simp add: contains_def js_ge_def)

text \<open>
  C4. \<^verbatim>\<open>overlaps\<close> is symmetric: \<^verbatim>\<open>a.overlaps(b)\<close> and \<^verbatim>\<open>b.overlaps(a)\<close> are
  the same boolean, for all bounds (also with infinite or \<^verbatim>\<open>NaN\<close> coordinates).
\<close>

theorem overlaps_symmetric: "overlaps a b = overlaps b a"
  by (auto simp add: overlaps_def js_ge_def)

text \<open>
  C6. After \<^verbatim>\<open>clear()\<close>, \<^verbatim>\<open>contains(p)\<close> is false for every point \<open>p\<close> with finite
  coordinates.
\<close>

theorem clear_contains_no_finite_point:
  "finite_vector p \<Longrightarrow> contains (clear b) p = False"
  by (simp add: contains_def js_ge_def clear_fields)

text \<open>
  C10. The empty state (\<^verbatim>\<open>min = (Infinity, Infinity)\<close>, \<^verbatim>\<open>max = (-Infinity, -Infinity)\<close>)
  overlaps no bounds with four finite coordinates, whichever of the two is the receiver.
\<close>

theorem empty_overlaps_no_finite_bounds:
  "finite_bounds b \<Longrightarrow>
     overlaps (constructor None) b = False \<and> overlaps b (constructor None) = False"
  by (simp add: overlaps_def js_ge_def constructor_def finite_bounds_def) (cases "x (max_corner b)"; simp)

theorem overlaps_symmetric_witness:
  "overlaps (constructor (Some [\<lparr>x = Finite 0, y = Finite 0\<rparr>, \<lparr>x = Finite 2, y = Finite 2\<rparr>]))
            (constructor (Some [\<lparr>x = Finite 2, y = Finite 1\<rparr>, \<lparr>x = Finite 3, y = Finite 4\<rparr>]))
   \<and> overlaps (constructor (Some [\<lparr>x = Finite 2, y = Finite 1\<rparr>, \<lparr>x = Finite 3, y = Finite 4\<rparr>]))
               (constructor (Some [\<lparr>x = Finite 0, y = Finite 0\<rparr>, \<lparr>x = Finite 2, y = Finite 2\<rparr>]))"
proof -
  have "overlaps (constructor (Some [\<lparr>x = Finite 0, y = Finite 0\<rparr>, \<lparr>x = Finite 2, y = Finite 2\<rparr>]))
            (constructor (Some [\<lparr>x = Finite 2, y = Finite 1\<rparr>, \<lparr>x = Finite 3, y = Finite 4\<rparr>]))"
    by (simp add: overlaps_def js_ge_def js_gt_def constructor_def update_def add_def
        add_vertex_def clear_fields Let_def)
  then show ?thesis
    using overlaps_symmetric
      [of "constructor (Some [\<lparr>x = Finite 0, y = Finite 0\<rparr>, \<lparr>x = Finite 2, y = Finite 2\<rparr>])"
          "constructor (Some [\<lparr>x = Finite 2, y = Finite 1\<rparr>, \<lparr>x = Finite 3, y = Finite 4\<rparr>])"]
    by simp
qed

theorem clear_contains_no_finite_point_witness:
  "finite_vector \<lparr>x = Finite 1, y = Finite 2\<rparr>
   \<and> contains (clear (constructor (Some [\<lparr>x = Finite 0, y = Finite 0\<rparr>, \<lparr>x = Finite 3, y = Finite 3\<rparr>])))
        \<lparr>x = Finite 1, y = Finite 2\<rparr> = False"
  using clear_contains_no_finite_point
    [of "\<lparr>x = Finite 1, y = Finite 2\<rparr>"
        "constructor (Some [\<lparr>x = Finite 0, y = Finite 0\<rparr>, \<lparr>x = Finite 3, y = Finite 3\<rparr>])"]
  by (simp add: finite_vector_def)

theorem empty_overlaps_no_finite_bounds_witness:
  "finite_bounds (setMinMax (constructor None) (Finite 0) (Finite 0) (Finite 2) (Finite 2))
   \<and> overlaps (constructor None)
        (setMinMax (constructor None) (Finite 0) (Finite 0) (Finite 2) (Finite 2)) = False
   \<and> overlaps (setMinMax (constructor None) (Finite 0) (Finite 0) (Finite 2) (Finite 2))
        (constructor None) = False"
  using empty_overlaps_no_finite_bounds
    [of "setMinMax (constructor None) (Finite 0) (Finite 0) (Finite 2) (Finite 2)"]
  by (simp add: finite_bounds_def setMinMax_def Let_def)

subsection \<open>Resizing and translating\<close>

text \<open>
  C8. Setting \<^verbatim>\<open>width\<close> to \<open>v\<close> leaves \<^verbatim>\<open>min\<close> and \<^verbatim>\<open>max.y\<close> as they are and makes
  \<^verbatim>\<open>max.x = min.x + v\<close>; setting \<^verbatim>\<open>height\<close> to \<open>v\<close> leaves \<^verbatim>\<open>min\<close> and
  \<^verbatim>\<open>max.x\<close> as they are and makes \<^verbatim>\<open>max.y = min.y + v\<close>. With \<^verbatim>\<open>min = (0, 0)\<close>,
  \<^verbatim>\<open>max = (2, 2)\<close> and \<^verbatim>\<open>width = 5\<close>: \<^verbatim>\<open>max.x\<close> is 5 and \<^verbatim>\<open>min.x\<close> is 0.
\<close>

theorem set_width_height_move_max_only:
  "min_corner (set_width b v) = min_corner b
   \<and> x (max_corner (set_width b v)) = js_add (x (min_corner b)) v
   \<and> y (max_corner (set_width b v)) = y (max_corner b)
   \<and> min_corner (set_height b v) = min_corner b
   \<and> y (max_corner (set_height b v)) = js_add (y (min_corner b)) v
   \<and> x (max_corner (set_height b v)) = x (max_corner b)
   \<and> x (max_corner (set_width (setMinMax b (Finite 0) (Finite 0) (Finite 2) (Finite 2)) (Finite 5)))
       = Finite 5
   \<and> x (min_corner (set_width (setMinMax b (Finite 0) (Finite 0) (Finite 2) (Finite 2)) (Finite 5)))
       = Finite 0"
  by (simp add: set_width_def set_height_def setMinMax_def Let_def)





text \<open>
  The other restrictions are needed as well. Rounding: with \<^verbatim>\<open>max.x = 1\<close> and
  \<^verbatim>\<open>v.x = 2^53\<close> the sum is rounded to \<^verbatim>\<open>2^53\<close> and \<^verbatim>\<open>max.x\<close> comes back as 0.
\<close>

lemma translate_back_rounding_example:
  "max_corner (translate (translate
       (setMinMax (constructor None) (Finite 0) (Finite 0) (Finite 1) (Finite 1))
       (Other \<lparr>x = Finite (2 ^ 53), y = Finite 0\<rparr>))
       (Other (negate \<lparr>x = Finite (2 ^ 53), y = Finite 0\<rparr>)))
     = \<lparr>x = Finite 0, y = Finite 1\<rparr>"
proof -
  have a: "round64 (1 + 2 ^ 53) = Finite (2 ^ 53)"
    using round64_tie by (simp add: add.commute)
  have b: "round64 (2 ^ 53) = Finite (2 ^ 53)"
    using round64_dyadic [of "2 ^ 53" 1 53] by (simp add: powr_realpow [symmetric] overflow_def)
  show ?thesis
    using a b
    by (simp add: translate_def negate_def setMinMax_def constructor_def Let_def)
qed

text \<open>
  An infinite vector: with \<^verbatim>\<open>v = (Infinity, 0)\<close> the first translation makes \<^verbatim>\<open>min.x\<close>
  infinite and the second makes it \<^verbatim>\<open>NaN\<close>.
\<close>

lemma translate_back_infinite_example:
  "min_corner (translate (translate
       (setMinMax (constructor None) (Finite 0) (Finite 0) (Finite 1) (Finite 1))
       (Other \<lparr>x = Infinity, y = Finite 0\<rparr>)) (Other (negate \<lparr>x = Infinity, y = Finite 0\<rparr>)))
     = \<lparr>x = NaN, y = Finite 0\<rparr>"
  by (simp add: translate_def negate_def setMinMax_def constructor_def Let_def)

text \<open>
  The bounds' own \<^verbatim>\<open>min\<close> as the vector: from \<^verbatim>\<open>min = (1, 1)\<close>, \<^verbatim>\<open>max = (3, 3)\<close>,
  \<^verbatim>\<open>translate(this.min)\<close> doubles \<^verbatim>\<open>min\<close> and then adds the doubled value to \<^verbatim>\<open>max\<close>;
  translating back by \<^verbatim>\<open>(-1, -1)\<close> does not give \<^verbatim>\<open>max = (3, 3)\<close> again.
\<close>

lemma translate_own_min_example:
  "translate (setMinMax (constructor None) (Finite 1) (Finite 1) (Finite 3) (Finite 3)) This_min
     = setMinMax (constructor None) (Finite 2) (Finite 2) (Finite 5) (Finite 5)
   \<and> translate (translate
        (setMinMax (constructor None) (Finite 1) (Finite 1) (Finite 3) (Finite 3)) This_min)
        (Other (negate \<lparr>x = Finite 1, y = Finite 1\<rparr>))
     = setMinMax (constructor None) (Finite 1) (Finite 1) (Finite 4) (Finite 4)"
  by (simp add: translate_def negate_def setMinMax_def constructor_def Let_def)

subsection \<open>Merging with another bounds\<close>

lemma js_lt_NegInfinity_finite [simp]: "isFinite a \<Longrightarrow> js_lt NegInfinity a"
  by (cases a) simp_all

lemma js_lt_finite_Infinity [simp]: "isFinite a \<Longrightarrow> js_lt a Infinity"
  by (cases a) simp_all

lemma js_lt_irrefl [simp]: "\<not> js_lt a a"
  by (cases a) simp_all

text \<open>
  C1. In \<^verbatim>\<open>addBounds(bounds, clear)\<close>, whenever \<^verbatim>\<open>bounds.min.y < this.min.y\<close> holds when
  the \<^verbatim>\<open>min.y\<close> statement is reached, the call leaves \<^verbatim>\<open>this.min.y\<close> equal to
  \<^verbatim>\<open>bounds.max.y\<close> (the argument's \<^verbatim>\<open>max.y\<close>, unchanged since the call began), whereas
  whenever \<^verbatim>\<open>bounds.min.x < this.min.x\<close> holds when the \<^verbatim>\<open>min.x\<close> statement is reached,
  the call leaves \<^verbatim>\<open>this.min.x\<close> equal to \<^verbatim>\<open>bounds.min.x\<close>.
\<close>

theorem addBounds_min_y_assigned_from_max_y:
  "(js_lt (y (min_corner (addBounds_at_min_y s this bounds clr bounds)))
          (y (min_corner (addBounds_at_min_y s this bounds clr this)))
      \<longrightarrow> y (min_corner (addBounds s this bounds clr this))
            = y (max_corner (addBounds_at_min_y s this bounds clr bounds))
          \<and> y (max_corner (addBounds_at_min_y s this bounds clr bounds)) = y (max_corner (s bounds)))
   \<and> (js_lt (x (min_corner (addBounds_at_min_x s this bounds clr bounds)))
             (x (min_corner (addBounds_at_min_x s this bounds clr this)))
      \<longrightarrow> x (min_corner (addBounds s this bounds clr this))
            = x (min_corner (addBounds_at_min_x s this bounds clr bounds))
          \<and> x (min_corner (addBounds_at_min_x s this bounds clr bounds)) = x (min_corner (s bounds)))"
  by (cases "this = bounds")
     (simp_all add: addBounds_def addBounds_at_min_y_def addBounds_at_min_x_def addBounds_min_y_def
      addBounds_max_y_def addBounds_min_x_def addBounds_max_x_def addBounds_clear_def)

theorem addBounds_min_y_assigned_from_max_y_witness:
  "js_lt (y (min_corner (addBounds_at_min_y
            (fresh_store(0 := setMinMax (constructor None) (Finite 0) (Finite 0) (Finite 10) (Finite 10),
                         1 := setMinMax (constructor None) (Finite (-5)) (Finite (-5)) (Finite 3) (Finite 3)))
            0 1 False 1)))
         (y (min_corner (addBounds_at_min_y
            (fresh_store(0 := setMinMax (constructor None) (Finite 0) (Finite 0) (Finite 10) (Finite 10),
                         1 := setMinMax (constructor None) (Finite (-5)) (Finite (-5)) (Finite 3) (Finite 3)))
            0 1 False 0)))
   \<and> min_corner (addBounds
         (fresh_store(0 := setMinMax (constructor None) (Finite 0) (Finite 0) (Finite 10) (Finite 10),
                      1 := setMinMax (constructor None) (Finite (-5)) (Finite (-5)) (Finite 3) (Finite 3)))
         0 1 False 0) = \<lparr>x = Finite (-5), y = Finite 3\<rparr>"
  using addBounds_min_y_assigned_from_max_y
    [where s = "fresh_store(0 := setMinMax (constructor None) (Finite 0) (Finite 0) (Finite 10) (Finite 10),
                   1 := setMinMax (constructor None) (Finite (-5)) (Finite (-5)) (Finite 3) (Finite 3))"
       and this = 0 and bounds = 1 and clr = False]
  by (simp add: addBounds_def addBounds_at_min_y_def addBounds_at_min_x_def addBounds_min_y_def
      addBounds_max_y_def addBounds_min_x_def addBounds_max_x_def addBounds_clear_def
      js_gt_def setMinMax_def Let_def)

text \<open>
  C9, amended. For a bounds \<open>b\<close> with four finite coordinates and a receiver that is another
  object than \<open>b\<close>, \<^verbatim>\<open>addBounds(b, true)\<close> leaves the receiver with
  \<^verbatim>\<open>min = (b.min.x, b.max.y)\<close> and \<^verbatim>\<open>max = (b.max.x, b.max.y)\<close>.
\<close>

theorem addBounds_clear_copy_collapses_y:
  assumes "this \<noteq> bounds" and "finite_bounds (s bounds)"
  shows "min_corner (addBounds s this bounds True this)
           = \<lparr>x = x (min_corner (s bounds)), y = y (max_corner (s bounds))\<rparr>
         \<and> max_corner (addBounds s this bounds True this)
           = \<lparr>x = x (max_corner (s bounds)), y = y (max_corner (s bounds))\<rparr>"
  using assms
  by (simp add: addBounds_def addBounds_at_min_y_def addBounds_at_min_x_def addBounds_min_y_def
      addBounds_max_y_def addBounds_min_x_def addBounds_max_x_def addBounds_clear_def
      finite_bounds_def js_gt_def clear_fields)

theorem addBounds_clear_copy_collapses_y_witness:
  "(0::nat) \<noteq> 1
   \<and> finite_bounds ((fresh_store(1 := setMinMax (constructor None) (Finite 0) (Finite 0) (Finite 1) (Finite 2))) 1)
   \<and> min_corner (addBounds
        (fresh_store(1 := setMinMax (constructor None) (Finite 0) (Finite 0) (Finite 1) (Finite 2)))
        0 1 True 0) = \<lparr>x = Finite 0, y = Finite 2\<rparr>
   \<and> max_corner (addBounds
        (fresh_store(1 := setMinMax (constructor None) (Finite 0) (Finite 0) (Finite 1) (Finite 2)))
        0 1 True 0) = \<lparr>x = Finite 1, y = Finite 2\<rparr>"
  using addBounds_clear_copy_collapses_y
    [where s = "fresh_store(1 := setMinMax (constructor None) (Finite 0) (Finite 0) (Finite 1) (Finite 2))"
       and this = 0 and bounds = 1]
  by (simp add: finite_bounds_def setMinMax_def Let_def)

text \<open>
  The claim as written takes any receiver. When the receiver is \<open>b\<close> itself,
  \<^verbatim>\<open>this.clear()\<close> has emptied \<open>b\<close> before any of its fields is read, no comparison
  holds, and the call leaves it empty.
\<close>

theorem addBounds_clear_self_counterexample:
  "finite_bounds ((fresh_store(0 := setMinMax (constructor None) (Finite 0) (Finite 0) (Finite 1) (Finite 2))) 0)
   \<and> min_corner (addBounds
        (fresh_store(0 := setMinMax (constructor None) (Finite 0) (Finite 0) (Finite 1) (Finite 2)))
        0 0 True 0) = \<lparr>x = Infinity, y = Infinity\<rparr>
   \<and> max_corner (addBounds
        (fresh_store(0 := setMinMax (constructor None) (Finite 0) (Finite 0) (Finite 1) (Finite 2)))
        0 0 True 0) = \<lparr>x = NegInfinity, y = NegInfinity\<rparr>
   \<and> min_corner (addBounds
        (fresh_store(0 := setMinMax (constructor None) (Finite 0) (Finite 0) (Finite 1) (Finite 2)))
        0 0 True 0) \<noteq> \<lparr>x = Finite 0, y = Finite 2\<rparr>"
  by (simp add: addBounds_def addBounds_at_min_y_def addBounds_at_min_x_def addBounds_min_y_def
      addBounds_max_y_def addBounds_min_x_def addBounds_max_x_def addBounds_clear_def
      js_gt_def finite_bounds_def clear_fields setMinMax_def Let_def)

subsection \<open>Adding vertices\<close>

lemma js_le_trans: "js_le a c \<Longrightarrow> js_le c d \<Longrightarrow> js_le a d"
  by (cases a; cases c; cases d) simp_all

lemma js_lt_imp_le: "js_lt a c \<Longrightarrow> js_le a c"
  by (cases a; cases c) simp_all

lemma js_not_lt_imp_le: "\<not> isNaN a \<Longrightarrow> \<not> isNaN c \<Longrightarrow> \<not> js_lt a c \<Longrightarrow> js_le c a"
  by (cases a; cases c) simp_all

lemma js_le_refl: "\<not> isNaN a \<Longrightarrow> js_le a a"
  by (cases a) simp_all

lemma js_le_not_NaN: "js_le a c \<Longrightarrow> \<not> isNaN a \<and> \<not> isNaN c"
  by (cases a; cases c) simp_all

lemma js_lt_not_NaN: "js_lt a c \<Longrightarrow> \<not> isNaN a \<and> \<not> isNaN c"
  by (cases a; cases c) simp_all

lemma add_vertex_fields:
  "x (max_corner (add_vertex b v)) = (if js_gt (x v) (x (max_corner b)) then x v else x (max_corner b))"
  "x (min_corner (add_vertex b v)) = (if js_lt (x v) (x (min_corner b)) then x v else x (min_corner b))"
  "y (max_corner (add_vertex b v)) = (if js_gt (y v) (y (max_corner b)) then y v else y (max_corner b))"
  "y (min_corner (add_vertex b v)) = (if js_lt (y v) (y (min_corner b)) then y v else y (min_corner b))"
  by (simp_all add: add_vertex_def Let_def)

lemma add_vertex_nan_free: "nan_free b \<Longrightarrow> nan_free (add_vertex b v)"
  by (auto simp add: nan_free_def add_vertex_fields js_gt_def dest: js_lt_not_NaN)

lemma add_vertex_contains_vertex:
  assumes "nan_free b" and "\<not> isNaN (x v)" and "\<not> isNaN (y v)"
  shows "contains (add_vertex b v) v"
  using assms
  by (auto simp add: contains_def js_ge_def nan_free_def add_vertex_fields js_gt_def
      intro: js_le_refl js_not_lt_imp_le)

lemma add_vertex_keeps_point: "contains b p \<Longrightarrow> contains (add_vertex b v) p"
  by (auto simp add: contains_def js_ge_def add_vertex_fields js_gt_def
      intro: js_le_trans [OF _ js_lt_imp_le] js_le_trans [OF js_lt_imp_le])

lemma add_loop_keeps_point: "contains b p \<Longrightarrow> contains (add_loop b V) p"
  by (induction V arbitrary: b) (simp_all add: add_vertex_keeps_point)

lemma add_loop_nan_free: "nan_free b \<Longrightarrow> nan_free (add_loop b V)"
  by (induction V arbitrary: b) (simp_all add: add_vertex_nan_free)

lemma add_loop_contains_vertices:
  assumes "p \<in> set V" and "nan_free b" and "\<not> isNaN (x p)" and "\<not> isNaN (y p)"
  shows "contains (add_loop b V) p"
  using assms
proof (induction V arbitrary: b)
  case Nil
  then show ?case by simp
next
  case (Cons v V)
  show ?case
  proof (cases "p = v")
    case True
    with Cons.prems have "contains (add_vertex b v) p"
      by (simp add: add_vertex_contains_vertex)
    then show ?thesis by (simp add: add_loop_keeps_point)
  next
    case False
    with Cons.prems have "p \<in> set V" by simp
    moreover have "nan_free (add_vertex b v)"
      using Cons.prems by (simp add: add_vertex_nan_free)
    ultimately show ?thesis using Cons.IH Cons.prems by simp
  qed
qed

lemma clear_nan_free: "nan_free (clear b)"
  by (simp add: nan_free_def clear_fields)


text \<open>
  C3, amended. For every vertex list \<open>V\<close> and every point \<open>p\<close> of \<open>V\<close> neither of whose
  coordinates is \<^verbatim>\<open>NaN\<close>, a newly constructed empty bounds contains \<open>p\<close> after
  \<^verbatim>\<open>update(V)\<close>. (The other vertices of \<open>V\<close> are arbitrary; \<open>V\<close> is not empty, since
  \<open>p\<close> is in it.)
\<close>

theorem update_contains_each_vertex:
  assumes "p \<in> set V" and "\<not> isNaN (x p)" and "\<not> isNaN (y p)"
  shows "contains (update (constructor None) V) p"
  unfolding update_def add_def using assms
  by (simp add: add_loop_contains_vertices clear_nan_free)

theorem update_contains_each_vertex_witness:
  "\<lparr>x = Finite 0, y = Finite 5\<rparr>
     \<in> set [\<lparr>x = Finite 1, y = Finite 1\<rparr>, \<lparr>x = Finite (-1), y = Finite (-1)\<rparr>, \<lparr>x = Finite 0, y = Finite 5\<rparr>]
   \<and> \<not> isNaN (x \<lparr>x = Finite 0, y = Finite 5\<rparr>) \<and> \<not> isNaN (y \<lparr>x = Finite 0, y = Finite 5\<rparr>)
   \<and> contains (update (constructor None)
        [\<lparr>x = Finite 1, y = Finite 1\<rparr>, \<lparr>x = Finite (-1), y = Finite (-1)\<rparr>, \<lparr>x = Finite 0, y = Finite 5\<rparr>])
        \<lparr>x = Finite 0, y = Finite 5\<rparr>"
  using update_contains_each_vertex
    [of "\<lparr>x = Finite 0, y = Finite 5\<rparr>"
        "[\<lparr>x = Finite 1, y = Finite 1\<rparr>, \<lparr>x = Finite (-1), y = Finite (-1)\<rparr>, \<lparr>x = Finite 0, y = Finite 5\<rparr>]"]
  by simp

text \<open>
  The claim as written takes every point of \<open>V\<close>. Every comparison with \<^verbatim>\<open>NaN\<close> is
  false, in \<^verbatim>\<open>add\<close> and in \<^verbatim>\<open>contains\<close>: a vertex with a \<^verbatim>\<open>NaN\<close> coordinate is
  not contained in the bounds computed from it.
\<close>

theorem update_NaN_vertex_counterexample:
  "\<lparr>x = NaN, y = Finite 0\<rparr> \<in> set [\<lparr>x = NaN, y = Finite 0\<rparr>]
   \<and> contains (update (constructor None) [\<lparr>x = NaN, y = Finite 0\<rparr>]) \<lparr>x = NaN, y = Finite 0\<rparr> = False"
  by (simp add: contains_def)




lemma valid_content_inside:
  assumes "valid_bounds b" and "content b \<subseteq> content b'"
  shows "inside b b'"
proof -
  have nn: "\<not> isNaN (x (min_corner b))" "\<not> isNaN (x (max_corner b))"
    "\<not> isNaN (y (min_corner b))" "\<not> isNaN (y (max_corner b))"
    using assms(1) by (auto simp add: valid_bounds_def dest: js_le_not_NaN)
  have "min_corner b \<in> content b"
    using assms(1) nn by (simp add: content_def contains_def js_ge_def valid_bounds_def js_le_refl)
  then have lo: "contains b' (min_corner b)"
    using assms(2) by (auto simp add: content_def)
  have "max_corner b \<in> content b"
    using assms(1) nn by (simp add: content_def contains_def js_ge_def valid_bounds_def js_le_refl)
  then have hi: "contains b' (max_corner b)"
    using assms(2) by (auto simp add: content_def)
  show ?thesis
    using lo hi by (simp add: inside_def contains_def js_ge_def)
qed







text \<open>A set with a point in it has at most one smallest box.\<close>

lemma js_le_antisym: "js_le a c \<Longrightarrow> js_le c a \<Longrightarrow> a = c"
  by (cases a; cases c) simp_all

lemma contains_valid_bounds: "contains b p \<Longrightarrow> valid_bounds b"
  by (auto simp add: contains_def js_ge_def valid_bounds_def intro: js_le_trans)

lemma inside_antisym:
  fixes b b' :: Bounds
  assumes "inside b b'" and "inside b' b"
  shows "b = b'"
proof -
  have "x (min_corner b) = x (min_corner b')" "y (min_corner b) = y (min_corner b')"
    "x (max_corner b) = x (max_corner b')" "y (max_corner b) = y (max_corner b')"
    using assms by (auto simp add: inside_def intro: js_le_antisym)
  then have "min_corner b = min_corner b'" "max_corner b = max_corner b'"
    by simp_all
  then show ?thesis by simp
qed

lemma smallest_box_unique:
  assumes "smallest_box_containing b S" and "smallest_box_containing b' S" and "p \<in> S"
  shows "b = b'"
proof -
  from assms have "valid_bounds b" "valid_bounds b'"
    by (auto simp add: smallest_box_containing_def intro: contains_valid_bounds)
  moreover from assms have "content b \<subseteq> content b'" "content b' \<subseteq> content b"
    by (simp_all add: smallest_box_containing_def)
  ultimately have "inside b b'" "inside b' b"
    by (simp_all add: valid_content_inside)
  then show ?thesis by (rule inside_antisym)
qed




end
